theory Spec2Isabelle
  imports Main
begin

section \<open>The session facade of the downloader (\<^verbatim>\<open>src/facilito/async_api.py\<close>)\<close>

text \<open>
  The class \<^verbatim>\<open>AsyncFacilito\<close> drives a browser through an automation library. Every
  call into that library, into the collectors and downloaders, and into the file system
  is an \<^emph>\<open>external call\<close>: the model appends one event to a trace when the call is made
  and takes its outcome (a raised exception or a returned value) from an environment.
  Exceptions are values: each method returns \<open>(error + 'a) \<times> facilito\<close>, the second
  component being the object and the world after the call, also when the call raised.
\<close>

subsection \<open>Data model\<close>

datatype TypeUnit = VIDEO | LECTURE | QUIZ

text \<open>Modelled from the spec: \<^verbatim>\<open>models.Unit\<close> is not part of the sources; section 3 of the
  specification gives a Unit a type tag and a slug.\<close>

record Unit =
  type :: TypeUnit
  slug :: string

text \<open>Modelled from the spec: \<^verbatim>\<open>models.Course\<close> is not part of the sources; section 3 of the
  specification makes a Course an aggregate of Units.\<close>

record Course =
  units :: "Unit list"

datatype json =
    JNull
  | JBool bool
  | JNum int
  | JStr string
  | JArr "json list"
  | JObj "(string \<times> json) list"

type_synonym cookie = "(string \<times> json) list"

type_synonym kwargs = "(string \<times> string) list"

text \<open>What is found at the path given to \<^verbatim>\<open>set_cookies\<close>.\<close>

datatype file_content = Missing | NotJson | Json json

text \<open>
  The exceptions that reach a caller. \<open>Raised m\<close> is an exception raised inside an
  external call (\<open>m\<close> describes it); \<open>UnboundLocalError x\<close> is what Python raises when the
  local variable \<open>x\<close> is read before it was assigned; \<open>Exception m\<close> is the
  \<^verbatim>\<open>raise Exception(m)\<close> of \<^verbatim>\<open>download\<close>; \<open>RequestFailed e\<close> is the uniform failure of the
  decorator \<^verbatim>\<open>try_except_request\<close>, holding the original cause \<open>e\<close>.
\<close>

datatype error =
    LoginError
  | AuthRequired
  | Exception string
  | UnboundLocalError string
  | Raised string
  | RequestFailed error

datatype event =
    Playwright_start
  | Firefox_launch bool
  | New_context
  | Apply_stealth
  | Load_state
  | Save_state
  | New_page
  | Goto string
  | Wait_for_selector string nat
  | Text_content string nat
  | Page_close
  | Add_cookies "cookie list"
  | Context_close
  | Browser_close
  | Playwright_stop
  | Collectors_fetch_unit string
  | Collectors_fetch_course string
  | Download_unit Unit string kwargs
  | Download_course Course kwargs
  | Read_json string
  | Unlink_session_file

text \<open>
  The environment of one call of a method: the constants of \<^verbatim>\<open>constants.py\<close>, the URL
  predicates of \<^verbatim>\<open>utils.py\<close>, and the outcome of every external call (\<open>Inl m\<close>: the call
  raises; \<open>Inr v\<close>: it returns \<open>v\<close>). None of these are part of the sources, so the
  methods are modelled for every environment.
\<close>

record env =
  BASE_URL :: string
  LOGIN_URL :: string
  is_video :: "string \<Rightarrow> bool"
  is_lecture :: "string \<Rightarrow> bool"
  is_quiz :: "string \<Rightarrow> bool"
  is_course :: "string \<Rightarrow> bool"
  out_playwright_start :: "string + unit"
  out_launch :: "bool \<Rightarrow> string + unit"
  out_new_context :: "string + unit"
  out_apply_stealth :: "string + unit"
  out_load_state :: "string + unit"
  out_save_state :: "string + unit"
  out_new_page :: "string + unit"
  out_goto :: "string \<Rightarrow> string + unit"
  out_wait_for_selector :: "string \<Rightarrow> nat \<Rightarrow> string + bool"
  out_text_content :: "string \<Rightarrow> nat \<Rightarrow> string + string option"
  out_page_close :: "string + unit"
  out_add_cookies :: "cookie list \<Rightarrow> string + unit"
  out_context_close :: "string + unit"
  out_browser_close :: "string + unit"
  out_playwright_stop :: "string + unit"
  out_unlink :: "string + unit"
  collectors_fetch_unit :: "string \<Rightarrow> string + Unit"
  collectors_fetch_course :: "string \<Rightarrow> string + Course"
  download_unit :: "Unit \<Rightarrow> string \<Rightarrow> kwargs \<Rightarrow> string + unit"
  download_course :: "Course \<Rightarrow> kwargs \<Rightarrow> string + unit"
  cookie_file :: "string \<Rightarrow> file_content"
  normalize_cookies :: "json \<Rightarrow> string + cookie list"

text \<open>
  The object and the part of the world the methods act on: the two attributes set by
  \<^verbatim>\<open>__init__\<close>, the driver process, browser and context that \<^verbatim>\<open>__aenter__\<close> creates, the
  number of pages open in the context, the cookies installed in it, whether the file
  \<^verbatim>\<open>SESSION_FILE\<close> exists, the trace of external calls and the messages logged.
\<close>

record facilito =
  headless :: bool
  authenticated :: bool
  playwright_running :: bool
  browser_open :: bool
  context_open :: bool
  open_pages :: nat
  context_cookies :: "cookie list"
  session_file :: bool
  trace :: "event list"
  logs :: "string list"

subsection \<open>External calls and Python's control flow\<close>

definition await :: "event \<Rightarrow> string + 'a \<Rightarrow> facilito \<Rightarrow> (error + 'a) \<times> facilito" where
  "await ev out s =
     ((case out of Inl m \<Rightarrow> Inl (Raised m) | Inr v \<Rightarrow> Inr v),
      s\<lparr>trace := trace s @ [ev]\<rparr>)"

text \<open>A \<^verbatim>\<open>finally\<close> clause: an exception raised in it replaces the outcome \<open>r\<close> of the
  statement; otherwise \<open>r\<close> stands.\<close>

definition try_finally :: "error + 'a \<Rightarrow> (error + unit) \<times> facilito \<Rightarrow> (error + 'a) \<times> facilito" where
  "try_finally r fin = (case fin of (Inl e, s) \<Rightarrow> (Inl e, s) | (Inr _, s) \<Rightarrow> (r, s))"

definition SELECTOR :: string where
  "SELECTOR = ''h1.h1.f-text-34''"

subsection \<open>The helpers of \<^verbatim>\<open>utils.py\<close> and \<^verbatim>\<open>helpers.py\<close>\<close>

text \<open>Modelled from the spec: the decorator \<^verbatim>\<open>utils.try_except_request\<close> is not part of the
  sources. Section 4.2: any underlying exception is caught and re-raised as a single
  "request failed" error kind, preserving the original cause.\<close>

definition try_except_request ::
  "(facilito \<Rightarrow> (error + 'a) \<times> facilito) \<Rightarrow> facilito \<Rightarrow> (error + 'a) \<times> facilito" where
  "try_except_request func s =
     (case func s of
        (Inl e, s1) \<Rightarrow> (Inl (RequestFailed e), s1)
      | (Inr v, s1) \<Rightarrow> (Inr v, s1))"

text \<open>Modelled from the spec: the decorator \<^verbatim>\<open>utils.login_required\<close> is not part of the
  sources. Section 4.2: if Authenticated is false at call time, it fails immediately with
  an authentication-required error without attempting any network or browser action.\<close>

definition login_required ::
  "(facilito \<Rightarrow> (error + 'a) \<times> facilito) \<Rightarrow> facilito \<Rightarrow> (error + 'a) \<times> facilito" where
  "login_required func s = (if \<not> authenticated s then (Inl AuthRequired, s) else func s)"

text \<open>Modelled from the spec: \<^verbatim>\<open>utils.save_state\<close> is not part of the sources. Section 3:
  the Session State is persisted to a well-known path.\<close>

definition save_state :: "env \<Rightarrow> facilito \<Rightarrow> (error + unit) \<times> facilito" where
  "save_state env s =
     (case await Save_state (out_save_state env) s of
        (Inl e, s1) \<Rightarrow> (Inl e, s1)
      | (Inr _, s1) \<Rightarrow> (Inr (), s1\<lparr>session_file := True\<rparr>))"

text \<open>Modelled from the spec: \<^verbatim>\<open>utils.load_state\<close> is not part of the sources. Section 4.1:
  Start restores the Session State from disk if present.\<close>

definition load_state :: "env \<Rightarrow> facilito \<Rightarrow> (error + unit) \<times> facilito" where
  "load_state env s = await Load_state (out_load_state env) s"

text \<open>Modelled from the spec: \<^verbatim>\<open>helpers.read_json\<close> is not part of the sources. Section 4.1:
  \<^verbatim>\<open>set_cookies\<close> fails if the file is missing or not valid JSON.\<close>

definition read_json :: "env \<Rightarrow> string \<Rightarrow> facilito \<Rightarrow> (error + json) \<times> facilito" where
  "read_json env path s =
     await (Read_json path)
       (case cookie_file env path of
          Missing \<Rightarrow> Inl ''FileNotFoundError''
        | NotJson \<Rightarrow> Inl ''JSONDecodeError''
        | Json j \<Rightarrow> Inr j) s"

subsection \<open>The class \<^verbatim>\<open>AsyncFacilito\<close>\<close>

text \<open>\<^verbatim>\<open>__init__\<close>. The second argument is the state of the file system the object is
  created in: whether \<^verbatim>\<open>SESSION_FILE\<close> exists.\<close>

definition init :: "bool \<Rightarrow> bool \<Rightarrow> facilito" where
  "init headless_arg file_exists =
     \<lparr>headless = headless_arg, authenticated = False, playwright_running = False,
      browser_open = False, context_open = False, open_pages = 0, context_cookies = [],
      session_file = file_exists, trace = [], logs = []\<rparr>"

text \<open>The property \<^verbatim>\<open>page\<close>: \<^verbatim>\<open>await self._context.new_page()\<close>.\<close>

definition page :: "env \<Rightarrow> facilito \<Rightarrow> (error + unit) \<times> facilito" where
  "page env s =
     (case await New_page (out_new_page env) s of
        (Inl e, s1) \<Rightarrow> (Inl e, s1)
      | (Inr _, s1) \<Rightarrow> (Inr (), s1\<lparr>open_pages := Suc (open_pages s1)\<rparr>))"

text \<open>\<^verbatim>\<open>await page.close()\<close> in a \<^verbatim>\<open>finally\<close> clause. \<open>bound\<close> tells whether the local
  variable \<^verbatim>\<open>page\<close> was assigned in the \<^verbatim>\<open>try\<close> suite; reading it unassigned raises.\<close>

definition page_close :: "env \<Rightarrow> bool \<Rightarrow> facilito \<Rightarrow> (error + unit) \<times> facilito" where
  "page_close env bound s =
     (if \<not> bound then (Inl (UnboundLocalError ''page''), s)
      else (case await Page_close (out_page_close env) s of
              (Inl e, s1) \<Rightarrow> (Inl e, s1)
            | (Inr _, s1) \<Rightarrow> (Inr (), s1\<lparr>open_pages := open_pages s1 - 1\<rparr>)))"

text \<open>The \<^verbatim>\<open>try\<close> suite of \<^verbatim>\<open>_set_profile\<close>: its outcome, and whether \<^verbatim>\<open>page\<close> was assigned.\<close>

definition set_profile_try :: "env \<Rightarrow> facilito \<Rightarrow> ((error + unit) \<times> facilito) \<times> bool" where
  "set_profile_try env s =
     (case page env s of
        (Inl e, s1) \<Rightarrow> ((Inl e, s1), False)
      | (Inr _, s1) \<Rightarrow>
          (case await (Goto (BASE_URL env)) (out_goto env (BASE_URL env)) s1 of
             (Inl e, s2) \<Rightarrow> ((Inl e, s2), True)
           | (Inr _, s2) \<Rightarrow>
               (case await (Text_content SELECTOR (5 * 1000))
                       (out_text_content env SELECTOR (5 * 1000)) s2 of
                  (Inl e, s3) \<Rightarrow> ((Inl e, s3), True)
                | (Inr None, s3) \<Rightarrow> ((Inr (), s3), True)
                | (Inr (Some welcome_message), s3) \<Rightarrow>
                    (if welcome_message \<noteq> []
                     then ((Inr (), s3\<lparr>authenticated := True,
                                        logs := logs s3 @ [welcome_message]\<rparr>), True)
                     else ((Inr (), s3), True)))))"

text \<open>The body of \<^verbatim>\<open>_set_profile\<close>: \<^verbatim>\<open>except Exception: pass\<close> turns every outcome of the
  \<^verbatim>\<open>try\<close> suite into a normal one, then the \<^verbatim>\<open>finally\<close> clause closes the page.\<close>

definition set_profile_body :: "env \<Rightarrow> facilito \<Rightarrow> (error + unit) \<times> facilito" where
  "set_profile_body env s =
     (case set_profile_try env s of
        ((r, s1), bound) \<Rightarrow> try_finally (Inr ()) (page_close env bound s1))"

definition set_profile :: "env \<Rightarrow> facilito \<Rightarrow> (error + unit) \<times> facilito" where
  "set_profile env = try_except_request (set_profile_body env)"

text \<open>\<^verbatim>\<open>__aenter__\<close> (Start).\<close>

definition aenter :: "env \<Rightarrow> facilito \<Rightarrow> (error + unit) \<times> facilito" where
  "aenter env s =
     (case await Playwright_start (out_playwright_start env) s of
        (Inl e, s1) \<Rightarrow> (Inl e, s1)
      | (Inr _, s1) \<Rightarrow>
     (case await (Firefox_launch (headless s)) (out_launch env (headless s))
             (s1\<lparr>playwright_running := True\<rparr>) of
        (Inl e, s2) \<Rightarrow> (Inl e, s2)
      | (Inr _, s2) \<Rightarrow>
     (case await New_context (out_new_context env) (s2\<lparr>browser_open := True\<rparr>) of
        (Inl e, s3) \<Rightarrow> (Inl e, s3)
      | (Inr _, s3) \<Rightarrow>
     (case await Apply_stealth (out_apply_stealth env) (s3\<lparr>context_open := True\<rparr>) of
        (Inl e, s4) \<Rightarrow> (Inl e, s4)
      | (Inr _, s4) \<Rightarrow>
     (case load_state env s4 of
        (Inl e, s5) \<Rightarrow> (Inl e, s5)
      | (Inr _, s5) \<Rightarrow> set_profile env s5)))))"

text \<open>\<^verbatim>\<open>__aexit__\<close> (Stop).\<close>

definition aexit :: "env \<Rightarrow> facilito \<Rightarrow> (error + unit) \<times> facilito" where
  "aexit env s =
     (case await Context_close (out_context_close env) s of
        (Inl e, s1) \<Rightarrow> (Inl e, s1)
      | (Inr _, s1) \<Rightarrow>
     (case await Browser_close (out_browser_close env) (s1\<lparr>context_open := False\<rparr>) of
        (Inl e, s2) \<Rightarrow> (Inl e, s2)
      | (Inr _, s2) \<Rightarrow>
     (case await Playwright_stop (out_playwright_stop env) (s2\<lparr>browser_open := False\<rparr>) of
        (Inl e, s3) \<Rightarrow> (Inl e, s3)
      | (Inr _, s3) \<Rightarrow> (Inr (), s3\<lparr>playwright_running := False\<rparr>))))"

text \<open>Python's \<^verbatim>\<open>async with AsyncFacilito(...) as client: block\<close>: when \<^verbatim>\<open>__aenter__\<close>
  raises, neither the block nor \<^verbatim>\<open>__aexit__\<close> runs; otherwise \<^verbatim>\<open>__aexit__\<close> runs after the
  block, whatever its outcome, and returns nothing, so an exception of the block is
  raised again.\<close>

definition async_with ::
  "env \<Rightarrow> (facilito \<Rightarrow> (error + 'a) \<times> facilito) \<Rightarrow> facilito \<Rightarrow> (error + 'a) \<times> facilito" where
  "async_with env block s =
     (case aenter env s of
        (Inl e, s1) \<Rightarrow> (Inl e, s1)
      | (Inr _, s1) \<Rightarrow> (case block s1 of (r, s2) \<Rightarrow> try_finally r (aexit env s2)))"

text \<open>The \<^verbatim>\<open>try\<close> suite of \<^verbatim>\<open>login\<close>: its outcome, and whether \<^verbatim>\<open>page\<close> was assigned.\<close>

definition login_try :: "env \<Rightarrow> facilito \<Rightarrow> ((error + unit) \<times> facilito) \<times> bool" where
  "login_try env s =
     (case page env s of
        (Inl e, s1) \<Rightarrow> ((Inl e, s1), False)
      | (Inr _, s1) \<Rightarrow>
          (case await (Goto (LOGIN_URL env)) (out_goto env (LOGIN_URL env)) s1 of
             (Inl e, s2) \<Rightarrow> ((Inl e, s2), True)
           | (Inr _, s2) \<Rightarrow>
               (case await (Wait_for_selector SELECTOR (2 * 60 * 1000))
                       (out_wait_for_selector env SELECTOR (2 * 60 * 1000)) s2 of
                  (Inl e, s3) \<Rightarrow> ((Inl e, s3), True)
                | (Inr welcome_message, s3) \<Rightarrow>
                    (if \<not> welcome_message then ((Inl LoginError, s3), True)
                     else (case save_state env (s3\<lparr>authenticated := True\<rparr>) of
                             (Inl e, s4) \<Rightarrow> ((Inl e, s4), True)
                           | (Inr _, s4) \<Rightarrow>
                               ((Inr (), s4\<lparr>logs := logs s4 @ [''Logged in successfully'']\<rparr>),
                                True))))))"

text \<open>The body of \<^verbatim>\<open>login\<close>: \<^verbatim>\<open>except Exception: raise LoginError()\<close> replaces every
  exception of the \<^verbatim>\<open>try\<close> suite, then the \<^verbatim>\<open>finally\<close> clause closes the page.\<close>

definition login_body :: "env \<Rightarrow> facilito \<Rightarrow> (error + unit) \<times> facilito" where
  "login_body env s =
     (case login_try env
             (s\<lparr>logs := logs s @ [''Please login, in the opened browser'',
                  ''You have to login manually, you have 2 minutes to do it'']\<rparr>) of
        ((r, s1), bound) \<Rightarrow>
          try_finally (case r of Inl e \<Rightarrow> Inl LoginError | Inr v \<Rightarrow> Inr v)
            (page_close env bound s1))"

definition login :: "env \<Rightarrow> facilito \<Rightarrow> (error + unit) \<times> facilito" where
  "login env = try_except_request (login_body env)"

text \<open>\<^verbatim>\<open>SESSION_FILE.unlink(missing_ok)\<close> of \<^verbatim>\<open>pathlib\<close>. The file system is asked to remove the
  file: it may refuse with an error of its own (\<open>out_unlink env = Inl m\<close>: a permission
  error, the path being a directory), and otherwise removes the file when it exists and
  raises \<open>FileNotFoundError\<close> when it does not. \<^verbatim>\<open>unlink\<close> catches \<open>FileNotFoundError\<close>, and
  no other exception, and raises it again unless \<^verbatim>\<open>missing_ok\<close> is true.\<close>

definition unlink :: "env \<Rightarrow> bool \<Rightarrow> facilito \<Rightarrow> (error + unit) \<times> facilito" where
  "unlink env missing_ok s =
     (case await Unlink_session_file
             (case out_unlink env of
                Inl m \<Rightarrow> Inl m
              | Inr v \<Rightarrow> (if session_file s then Inr () else Inl ''FileNotFoundError'')) s of
        (Inl e, s1) \<Rightarrow>
          (if e = Raised ''FileNotFoundError'' \<and> missing_ok then (Inr (), s1)
           else (Inl e, s1))
      | (Inr v, s1) \<Rightarrow> (Inr (), s1\<lparr>session_file := False\<rparr>))"

text \<open>\<^verbatim>\<open>logout\<close>.\<close>

definition logout_body :: "env \<Rightarrow> facilito \<Rightarrow> (error + unit) \<times> facilito" where
  "logout_body env s =
     (case unlink env True s of
        (Inl e, s1) \<Rightarrow> (Inl e, s1)
      | (Inr v, s1) \<Rightarrow> (Inr (), s1\<lparr>logs := logs s1 @ [''Logged out successfully'']\<rparr>))"

definition logout :: "env \<Rightarrow> facilito \<Rightarrow> (error + unit) \<times> facilito" where
  "logout env = try_except_request (logout_body env)"

definition fetch_unit :: "env \<Rightarrow> string \<Rightarrow> facilito \<Rightarrow> (error + Unit) \<times> facilito" where
  "fetch_unit env url =
     try_except_request (login_required
       (await (Collectors_fetch_unit url) (collectors_fetch_unit env url)))"

definition fetch_course :: "env \<Rightarrow> string \<Rightarrow> facilito \<Rightarrow> (error + Course) \<times> facilito" where
  "fetch_course env url =
     try_except_request (login_required
       (await (Collectors_fetch_course url) (collectors_fetch_course env url)))"

definition download_body :: "env \<Rightarrow> string \<Rightarrow> kwargs \<Rightarrow> facilito \<Rightarrow> (error + unit) \<times> facilito" where
  "download_body env url kw s =
     (if is_video env url \<or> is_lecture env url \<or> is_quiz env url then
        (case fetch_unit env url s of
           (Inl e, s1) \<Rightarrow> (Inl e, s1)
         | (Inr unit, s1) \<Rightarrow>
             (let extension = (if type unit = VIDEO then ''.mp4'' else ''.mhtml'')
              in await (Download_unit unit (slug unit @ extension) kw)
                   (download_unit env unit (slug unit @ extension) kw) s1))
      else if is_course env url then
        (case fetch_course env url s of
           (Inl e, s1) \<Rightarrow> (Inl e, s1)
         | (Inr course, s1) \<Rightarrow>
             await (Download_course course kw) (download_course env course kw) s1)
      else
        (Inl (Exception ''Please provide a valid URL, either a video, lecture or course.''), s))"

definition download :: "env \<Rightarrow> string \<Rightarrow> kwargs \<Rightarrow> facilito \<Rightarrow> (error + unit) \<times> facilito" where
  "download env url kw = try_except_request (login_required (download_body env url kw))"

definition set_cookies_body :: "env \<Rightarrow> string \<Rightarrow> facilito \<Rightarrow> (error + unit) \<times> facilito" where
  "set_cookies_body env path s =
     (case read_json env path s of
        (Inl e, s1) \<Rightarrow> (Inl e, s1)
      | (Inr j, s1) \<Rightarrow>
     (case normalize_cookies env j of
        Inl m \<Rightarrow> (Inl (Raised m), s1)
      | Inr cookies \<Rightarrow>
     (case await (Add_cookies cookies) (out_add_cookies env cookies) s1 of
        (Inl e, s2) \<Rightarrow> (Inl e, s2)
      | (Inr _, s2) \<Rightarrow>
     (case set_profile env (s2\<lparr>context_cookies := context_cookies s2 @ cookies\<rparr>) of
        (Inl e, s3) \<Rightarrow> (Inl e, s3)
      | (Inr _, s3) \<Rightarrow> save_state env s3))))"

definition set_cookies :: "env \<Rightarrow> string \<Rightarrow> facilito \<Rightarrow> (error + unit) \<times> facilito" where
  "set_cookies env path = try_except_request (set_cookies_body env path)"

subsection \<open>Sequences of operations\<close>

datatype operation =
    Aenter
  | Aexit
  | Login
  | Logout
  | Fetch_unit string
  | Fetch_course string
  | Download string kwargs
  | Set_cookies string
  | Set_profile

text \<open>The object after one operation, whether the operation returned or raised.\<close>

fun run :: "env \<Rightarrow> operation \<Rightarrow> facilito \<Rightarrow> facilito" where
  "run env Aenter s = snd (aenter env s)"
| "run env Aexit s = snd (aexit env s)"
| "run env Login s = snd (login env s)"
| "run env Logout s = snd (logout env s)"
| "run env (Fetch_unit url) s = snd (fetch_unit env url s)"
| "run env (Fetch_course url) s = snd (fetch_course env url s)"
| "run env (Download url kw) s = snd (download env url kw s)"
| "run env (Set_cookies path) s = snd (set_cookies env path s)"
| "run env Set_profile s = snd (set_profile env s)"

text \<open>A process: operations one after the other, each in the environment it meets.\<close>

fun run_all :: "(env \<times> operation) list \<Rightarrow> facilito \<Rightarrow> facilito" where
  "run_all [] s = s"
| "run_all ((env, op) # ops) s = run_all ops (run env op s)"

text \<open>Whether an error is the authentication-required error, possibly inside the uniform
  failure of \<^verbatim>\<open>try_except_request\<close>.\<close>

fun auth_required :: "error \<Rightarrow> bool" where
  "auth_required AuthRequired = True"
| "auth_required (RequestFailed e) = auth_required e"
| "auth_required LoginError = False"
| "auth_required (Exception m) = False"
| "auth_required (UnboundLocalError x) = False"
| "auth_required (Raised m) = False"

subsection \<open>A concrete environment\<close>

text \<open>The scenario of section 8 of the specification: a platform whose video and course
  URLs are the two examples given there, where every external call succeeds, the greeting
  is found, and \<^verbatim>\<open>cookies.json\<close> holds a cookie export with one cookie.\<close>

definition platform :: env where
  "platform =
     \<lparr>BASE_URL = ''https://platform'',
      LOGIN_URL = ''https://platform/login'',
      is_video = (\<lambda>url. url = ''https://platform/videos/123-some-slug''),
      is_lecture = (\<lambda>url. False),
      is_quiz = (\<lambda>url. False),
      is_course = (\<lambda>url. url = ''https://platform/courses/abc''),
      out_playwright_start = Inr (),
      out_launch = (\<lambda>h. Inr ()),
      out_new_context = Inr (),
      out_apply_stealth = Inr (),
      out_load_state = Inr (),
      out_save_state = Inr (),
      out_new_page = Inr (),
      out_goto = (\<lambda>url. Inr ()),
      out_wait_for_selector = (\<lambda>sel t. Inr True),
      out_text_content = (\<lambda>sel t. Inr (Some ''Hola'')),
      out_page_close = Inr (),
      out_add_cookies = (\<lambda>cs. Inr ()),
      out_context_close = Inr (),
      out_browser_close = Inr (),
      out_playwright_stop = Inr (),
      out_unlink = Inr (),
      collectors_fetch_unit = (\<lambda>url. Inr \<lparr>type = VIDEO, slug = ''some-slug''\<rparr>),
      collectors_fetch_course =
        (\<lambda>url. Inr \<lparr>units = [\<lparr>type = VIDEO, slug = ''some-slug''\<rparr>]\<rparr>),
      download_unit = (\<lambda>u dest kw. Inr ()),
      download_course = (\<lambda>c kw. Inr ()),
      cookie_file =
        (\<lambda>path. if path = ''cookies.json''
                then Json (JArr [JObj [(''name'', JStr ''sid''), (''value'', JStr ''1'')]])
                else if path = ''notes.txt'' then NotJson else Missing),
      normalize_cookies =
        (\<lambda>j. case j of
               JArr [JObj c] \<Rightarrow> Inr [c]
             | _ \<Rightarrow> Inl ''TypeError'')\<rparr>"

text \<open>A freshly constructed object with no Session State on disk, the same object
  once a login has succeeded, and a freshly constructed object with a Session State on
  disk.\<close>

definition fresh :: facilito where
  "fresh = init True False"

definition logged_in :: facilito where
  "logged_in = fresh\<lparr>authenticated := True\<rparr>"

definition returning :: facilito where
  "returning = init True True"

section \<open>Properties\<close>

lemmas facade_defs =
  await_def try_finally_def try_except_request_def login_required_def save_state_def
  load_state_def read_json_def page_def page_close_def set_profile_try_def
  set_profile_body_def set_profile_def login_try_def login_body_def login_def
  unlink_def logout_body_def logout_def fetch_unit_def fetch_course_def download_body_def download_def
  set_cookies_body_def set_cookies_def aenter_def aexit_def async_with_def

lemmas scenario_defs =
  platform_def fresh_def logged_in_def returning_def init_def SELECTOR_def

subsection \<open>The authentication probe\<close>

lemma set_profile_authenticated:
  "authenticated s \<Longrightarrow> authenticated (snd (set_profile env s))"
  by (simp add: facade_defs split: sum.splits prod.splits option.splits)

lemma set_profile_frame:
  "playwright_running (snd (set_profile env s)) = playwright_running s \<and>
   browser_open (snd (set_profile env s)) = browser_open s \<and>
   context_open (snd (set_profile env s)) = context_open s \<and>
   session_file (snd (set_profile env s)) = session_file s \<and>
   context_cookies (snd (set_profile env s)) = context_cookies s \<and>
   headless (snd (set_profile env s)) = headless s"
  by (simp add: facade_defs split: sum.splits prod.splits option.splits)

lemma set_profile_trace:
  "trace (snd (set_profile env s)) = trace s @
     New_page # (case out_new_page env of Inl m \<Rightarrow> []
        | Inr v \<Rightarrow> Goto (BASE_URL env) #
            (case out_goto env (BASE_URL env) of Inl m \<Rightarrow> []
             | Inr v \<Rightarrow> [Text_content SELECTOR 5000])
            @ [Page_close])"
  by (simp add: facade_defs split: sum.splits prod.splits option.splits)

text \<open>
  What the probe does when its page can be opened and closed: it returns normally
  whatever navigation and the greeting lookup do, the page it opened is closed again, and
  the flag is set exactly when a non-empty greeting was read (and otherwise left as it
  was).
\<close>

theorem set_profile_with_page:
  "out_new_page env = Inr () \<and> out_page_close env = Inr () \<longrightarrow>
     fst (set_profile env s) = Inr () \<and>
     open_pages (snd (set_profile env s)) = open_pages s \<and>
     authenticated (snd (set_profile env s)) =
       (authenticated s \<or>
        (out_goto env (BASE_URL env) = Inr () \<and>
         (\<exists>m. m \<noteq> [] \<and> out_text_content env SELECTOR 5000 = Inr (Some m)))) \<and>
     trace (snd (set_profile env s)) =
       trace s @ [New_page, Goto (BASE_URL env)] @
         (case out_goto env (BASE_URL env) of
            Inl m \<Rightarrow> [] | Inr v \<Rightarrow> [Text_content SELECTOR 5000]) @ [Page_close]"
  by (auto simp add: facade_defs split: sum.splits prod.splits option.splits)

theorem set_profile_with_page_witness:
  "set_profile (platform\<lparr>out_text_content := \<lambda>sel t. Inl ''TimeoutError''\<rparr>) fresh =
     (Inr (),
      fresh\<lparr>trace := [New_page, Goto ''https://platform'',
        Text_content ''h1.h1.f-text-34'' 5000, Page_close]\<rparr>) \<and>
   authenticated (snd (set_profile platform fresh))"
  using set_profile_with_page
      [of "platform\<lparr>out_text_content := \<lambda>sel t. Inl ''TimeoutError''\<rparr>" fresh]
    set_profile_with_page [of platform fresh]
  by (simp add: facade_defs scenario_defs)

text \<open>
  Claim C6 says that the authentication probe never raises to its caller, on any failure
  including a failure to create the page. The code does not meet it: when
  \<^verbatim>\<open>await self.page\<close> raises, the local variable \<^verbatim>\<open>page\<close> was never assigned, the handler
  \<^verbatim>\<open>except Exception: pass\<close> swallows the exception, and the \<^verbatim>\<open>finally\<close> clause then reads
  \<^verbatim>\<open>page\<close> and raises \<open>UnboundLocalError\<close>, which leaves the method inside the uniform
  failure of \<^verbatim>\<open>try_except_request\<close>. The evaluation below is that run.
\<close>

theorem set_profile_page_creation_failure:
  "set_profile (platform\<lparr>out_new_page := Inl ''TargetClosedError''\<rparr>) fresh =
     (Inl (RequestFailed (UnboundLocalError ''page'')), fresh\<lparr>trace := [New_page]\<rparr>)"
  by (simp add: facade_defs scenario_defs)

subsection \<open>The auth gate\<close>

text \<open>
  Claim C2: each of \<^verbatim>\<open>fetch_unit\<close>, \<^verbatim>\<open>fetch_course\<close> and \<^verbatim>\<open>download\<close>, called while the
  Authenticated flag is false, fails with the authentication-required error and leaves the
  object and the world as they were: no external call is made, nothing is added to the
  trace. The three methods are \<^verbatim>\<open>try_except_request (login_required body)\<close>; for every
  body, the flag is tested before the body runs, and the failure wrapping is applied to
  the gate's error as it is to an error of the body, so the caller finds the
  authentication-required error as the cause held by the uniform failure.
\<close>

theorem auth_gate:
  "(\<not> authenticated s \<longrightarrow>
      fetch_unit env url s = (Inl (RequestFailed AuthRequired), s) \<and>
      fetch_course env url s = (Inl (RequestFailed AuthRequired), s) \<and>
      download env url kw s = (Inl (RequestFailed AuthRequired), s)) \<and>
   try_except_request (login_required func) s =
     (if \<not> authenticated s then (Inl (RequestFailed AuthRequired), s)
      else (case func s of
              (Inl e, s1) \<Rightarrow> (Inl (RequestFailed e), s1)
            | (Inr v, s1) \<Rightarrow> (Inr v, s1)))"
  by (simp add: facade_defs)

theorem auth_gate_witness:
  "\<not> authenticated fresh \<and>
   fetch_unit platform ''https://platform/videos/123-some-slug'' fresh =
     (Inl (RequestFailed AuthRequired), fresh) \<and>
   fetch_course platform ''https://platform/courses/abc'' fresh =
     (Inl (RequestFailed AuthRequired), fresh) \<and>
   download platform ''https://platform/videos/123-some-slug'' [] fresh =
     (Inl (RequestFailed AuthRequired), fresh)"
proof -
  have h: "\<not> authenticated fresh"
    by (simp add: scenario_defs)
  show ?thesis
    using h auth_gate [where s = fresh and env = platform and kw = "[]"
        and url = "''https://platform/videos/123-some-slug''"
        and func = "\<lambda>s. (Inr (), s)"]
      auth_gate [where s = fresh and env = platform and kw = "[]"
        and url = "''https://platform/courses/abc''"
        and func = "\<lambda>s. (Inr (), s)"]
    by simp
qed

subsection \<open>Login and logout\<close>

text \<open>
  What \<^verbatim>\<open>login\<close> does when its page can be opened and closed: it succeeds exactly when
  navigation, the wait for the greeting element and the saving of the Session State all
  succeed, and then the flag is set and the Session State file exists; in every other case
  the caller finds \<open>LoginError\<close> as the cause of the failure. On both paths the page that
  was opened is closed again, by the last external call of the method.
\<close>

theorem login_with_page:
  "out_new_page env = Inr () \<and> out_page_close env = Inr () \<longrightarrow>
     fst (login env s) =
       (if out_goto env (LOGIN_URL env) = Inr () \<and>
           out_wait_for_selector env SELECTOR 120000 = Inr True \<and>
           out_save_state env = Inr ()
        then Inr () else Inl (RequestFailed LoginError)) \<and>
     (fst (login env s) = Inr () \<longrightarrow>
        authenticated (snd (login env s)) \<and> session_file (snd (login env s))) \<and>
     open_pages (snd (login env s)) = open_pages s \<and>
     (\<exists>evs. trace (snd (login env s)) = trace s @ New_page # evs @ [Page_close])"
  by (auto simp add: facade_defs split: sum.splits prod.splits option.splits)

theorem login_with_page_witness:
  "login (platform\<lparr>out_wait_for_selector := \<lambda>sel t. Inl ''TimeoutError''\<rparr>) fresh =
     (Inl (RequestFailed LoginError),
      fresh\<lparr>trace := [New_page, Goto ''https://platform/login'',
          Wait_for_selector ''h1.h1.f-text-34'' 120000, Page_close],
        logs := [''Please login, in the opened browser'',
                 ''You have to login manually, you have 2 minutes to do it'']\<rparr>) \<and>
   fst (login platform fresh) = Inr () \<and>
   authenticated (snd (login platform fresh)) \<and>
   session_file (snd (login platform fresh)) \<and>
   open_pages (snd (login platform fresh)) = 0"
  using login_with_page
      [of "platform\<lparr>out_wait_for_selector := \<lambda>sel t. Inl ''TimeoutError''\<rparr>" fresh]
    login_with_page [of platform fresh]
  by (simp add: facade_defs scenario_defs)

text \<open>
  Claim C3 says that on any exception during the login flow the caller receives a
  \<open>LoginError\<close>. The code does not meet it when the exception is raised by
  \<^verbatim>\<open>await self.page\<close>: the handler raises \<open>LoginError\<close>, but the local variable \<^verbatim>\<open>page\<close> was
  never assigned, so the \<^verbatim>\<open>finally\<close> clause raises \<open>UnboundLocalError\<close> in its place, and
  that is the cause the caller finds. The evaluation below is that run.
\<close>

theorem login_page_creation_failure:
  "login (platform\<lparr>out_new_page := Inl ''TargetClosedError''\<rparr>) fresh =
     (Inl (RequestFailed (UnboundLocalError ''page'')),
      fresh\<lparr>trace := [New_page],
        logs := [''Please login, in the opened browser'',
                 ''You have to login manually, you have 2 minutes to do it'']\<rparr>)"
  by (simp add: facade_defs scenario_defs)

text \<open>
  Claim C7, as amended: \<^verbatim>\<open>logout\<close> asks the file system to remove the Session State
  file. When the file system makes no objection of its own, \<^verbatim>\<open>logout\<close> returns normally and
  the file does not exist afterwards: it is deleted when it existed, and its absence is
  not an error. When the file system refuses with an error other than the file's absence,
  that error reaches the caller as the cause of the failure and the file is left as it
  was. In every case the Authenticated flag is what it was, and the removal is the only
  external action.
\<close>

theorem logout_removes_session_file:
  "(out_unlink env = Inr () \<longrightarrow>
      logout env s =
        (Inr (),
         s\<lparr>session_file := False, trace := trace s @ [Unlink_session_file],
           logs := logs s @ [''Logged out successfully'']\<rparr>)) \<and>
   (out_unlink env = Inl m \<and> m \<noteq> ''FileNotFoundError'' \<longrightarrow>
      logout env s =
        (Inl (RequestFailed (Raised m)), s\<lparr>trace := trace s @ [Unlink_session_file]\<rparr>)) \<and>
   authenticated (snd (logout env s)) = authenticated s \<and>
   trace (snd (logout env s)) = trace s @ [Unlink_session_file]"
  by (simp add: facade_defs split: sum.splits)

theorem logout_removes_session_file_witness:
  "logout platform returning =
     (Inr (),
      returning\<lparr>session_file := False, trace := [Unlink_session_file],
        logs := [''Logged out successfully'']\<rparr>) \<and>
   logout platform fresh =
     (Inr (),
      fresh\<lparr>trace := [Unlink_session_file], logs := [''Logged out successfully'']\<rparr>) \<and>
   logout (platform\<lparr>out_unlink := Inl ''PermissionError''\<rparr>) logged_in =
     (Inl (RequestFailed (Raised ''PermissionError'')),
      logged_in\<lparr>trace := [Unlink_session_file]\<rparr>) \<and>
   authenticated (snd (logout (platform\<lparr>out_unlink := Inl ''PermissionError''\<rparr>) logged_in))"
  using logout_removes_session_file [where env = platform and s = returning]
    logout_removes_session_file [where env = platform and s = fresh]
    logout_removes_session_file
      [where env = "platform\<lparr>out_unlink := Inl ''PermissionError''\<rparr>" and s = logged_in
        and m = "''PermissionError''"]
  by (simp add: scenario_defs)

text \<open>
  Claim C7 as stated fails: with a Session State file on disk that the file system
  refuses to remove, \<^verbatim>\<open>logout\<close> raises and the file is still there.
\<close>

theorem logout_unremovable_counterexample:
  "session_file returning \<and>
   fst (logout (platform\<lparr>out_unlink := Inl ''PermissionError''\<rparr>) returning) =
     Inl (RequestFailed (Raised ''PermissionError'')) \<and>
   session_file (snd (logout (platform\<lparr>out_unlink := Inl ''PermissionError''\<rparr>) returning))"
  by (simp add: facade_defs scenario_defs)

subsection \<open>Download\<close>

text \<open>
  Claim C1: \<^verbatim>\<open>download\<close> called while Authenticated is true.
  For a URL classified as video, lecture or quiz, for which the collector returns the Unit
  \<open>u\<close>: the external calls made are exactly one fetch of a Unit followed by one call of
  the Unit Downloader, with \<open>u\<close> and the destination \<open>slug u\<close> followed by \<^verbatim>\<open>.mp4\<close> when
  \<open>u\<close> is a video and by \<^verbatim>\<open>.mhtml\<close> otherwise.
  For a URL classified as course (and as nothing else), for which the collector returns
  the Course \<open>c\<close>: exactly one fetch of a Course followed by one call of the Course
  Downloader, and no call of the Unit Downloader.
  For any other URL: the call fails, the cause being the exception raised for an invalid
  URL, and nothing else happens: no fetch and no downloader is called.
\<close>

theorem download_dispatch:
  assumes "authenticated s"
  shows
  "((is_video env url \<or> is_lecture env url \<or> is_quiz env url) \<and>
    collectors_fetch_unit env url = Inr u \<longrightarrow>
      download env url kw s =
        ((case download_unit env u (slug u @ (if type u = VIDEO then ''.mp4'' else ''.mhtml'')) kw of
            Inl m \<Rightarrow> Inl (RequestFailed (Raised m)) | Inr v \<Rightarrow> Inr ()),
         s\<lparr>trace := trace s @ [Collectors_fetch_unit url,
              Download_unit u (slug u @ (if type u = VIDEO then ''.mp4'' else ''.mhtml'')) kw]\<rparr>)) \<and>
   (\<not> (is_video env url \<or> is_lecture env url \<or> is_quiz env url) \<and> is_course env url \<and>
    collectors_fetch_course env url = Inr c \<longrightarrow>
      download env url kw s =
        ((case download_course env c kw of
            Inl m \<Rightarrow> Inl (RequestFailed (Raised m)) | Inr v \<Rightarrow> Inr ()),
         s\<lparr>trace := trace s @ [Collectors_fetch_course url, Download_course c kw]\<rparr>)) \<and>
   (\<not> (is_video env url \<or> is_lecture env url \<or> is_quiz env url) \<and> \<not> is_course env url \<longrightarrow>
      download env url kw s =
        (Inl (RequestFailed
           (Exception ''Please provide a valid URL, either a video, lecture or course.'')), s))"
  using assms
  by (simp add: facade_defs split: sum.splits prod.splits)

theorem download_dispatch_witness:
  "authenticated logged_in \<and>
   download platform ''https://platform/videos/123-some-slug'' [] logged_in =
     (Inr (),
      logged_in\<lparr>trace := [Collectors_fetch_unit ''https://platform/videos/123-some-slug'',
         Download_unit \<lparr>type = VIDEO, slug = ''some-slug''\<rparr> ''some-slug.mp4'' []]\<rparr>) \<and>
   download platform ''https://platform/courses/abc'' [] logged_in =
     (Inr (),
      logged_in\<lparr>trace := [Collectors_fetch_course ''https://platform/courses/abc'',
         Download_course \<lparr>units = [\<lparr>type = VIDEO, slug = ''some-slug''\<rparr>]\<rparr> []]\<rparr>) \<and>
   download platform ''https://example.com/'' [] logged_in =
     (Inl (RequestFailed
        (Exception ''Please provide a valid URL, either a video, lecture or course.'')),
      logged_in) \<and>
   download
     (platform\<lparr>is_quiz := \<lambda>url. url = ''https://platform/quizzes/7-final'',
        collectors_fetch_unit := \<lambda>url. Inr \<lparr>type = QUIZ, slug = ''final''\<rparr>\<rparr>)
     ''https://platform/quizzes/7-final'' [] logged_in =
     (Inr (),
      logged_in\<lparr>trace := [Collectors_fetch_unit ''https://platform/quizzes/7-final'',
         Download_unit \<lparr>type = QUIZ, slug = ''final''\<rparr> ''final.mhtml'' []]\<rparr>)"
proof -
  have h: "authenticated logged_in"
    by (simp add: scenario_defs)
  show ?thesis
    using h
      download_dispatch [OF h, where env = platform and kw = "[]"
        and url = "''https://platform/videos/123-some-slug''"
        and u = "\<lparr>type = VIDEO, slug = ''some-slug''\<rparr>"]
      download_dispatch [OF h, where env = platform and kw = "[]"
        and url = "''https://platform/courses/abc''"
        and c = "\<lparr>units = [\<lparr>type = VIDEO, slug = ''some-slug''\<rparr>]\<rparr>"]
      download_dispatch [OF h, where env = platform and kw = "[]"
        and url = "''https://example.com/''"]
      download_dispatch [OF h, where kw = "[]"
        and env = "platform\<lparr>is_quiz := \<lambda>url. url = ''https://platform/quizzes/7-final'',
          collectors_fetch_unit := \<lambda>url. Inr \<lparr>type = QUIZ, slug = ''final''\<rparr>\<rparr>"
        and url = "''https://platform/quizzes/7-final''"
        and u = "\<lparr>type = QUIZ, slug = ''final''\<rparr>"]
    by (simp add: platform_def logged_in_def fresh_def init_def)
qed

subsection \<open>Start and Stop\<close>

lemma aenter_no_release:
  "\<exists>new. trace (snd (aenter env s)) = trace s @ new \<and>
     Context_close \<notin> set new \<and> Browser_close \<notin> set new \<and> Playwright_stop \<notin> set new"
  by (simp add: aenter_def load_state_def await_def set_profile_trace
      split: sum.splits prod.splits)

lemma aenter_resources:
  "(out_playwright_start env = Inr () \<longrightarrow> playwright_running (snd (aenter env s))) \<and>
   (out_playwright_start env = Inr () \<and> out_launch env (headless s) = Inr () \<longrightarrow>
      browser_open (snd (aenter env s))) \<and>
   (out_playwright_start env = Inr () \<and> out_launch env (headless s) = Inr () \<and>
    out_new_context env = Inr () \<longrightarrow> context_open (snd (aenter env s)))"
  by (simp add: aenter_def load_state_def await_def set_profile_frame
      split: sum.splits prod.splits)

text \<open>
  Claim C4, as amended: if a step of Start fails, the failure reaches the caller with
  every resource that Start had created still held. Start makes no call that closes the
  context, closes the browser or stops the driver; the driver is running if it was
  started, the browser is open if it was launched, the context is open if it was created;
  and under \<^verbatim>\<open>async with\<close> the failure of \<^verbatim>\<open>__aenter__\<close> is the outcome of the whole
  statement, \<^verbatim>\<open>__aexit__\<close> not being run.
\<close>

theorem aenter_failure_keeps_resources:
  "fst (aenter env s) = Inl e \<Longrightarrow>
     (\<exists>new. trace (snd (aenter env s)) = trace s @ new \<and>
        Context_close \<notin> set new \<and> Browser_close \<notin> set new \<and> Playwright_stop \<notin> set new) \<and>
     (out_playwright_start env = Inr () \<longrightarrow> playwright_running (snd (aenter env s))) \<and>
     (out_playwright_start env = Inr () \<and> out_launch env (headless s) = Inr () \<longrightarrow>
        browser_open (snd (aenter env s))) \<and>
     (out_playwright_start env = Inr () \<and> out_launch env (headless s) = Inr () \<and>
      out_new_context env = Inr () \<longrightarrow> context_open (snd (aenter env s))) \<and>
     async_with env block s = (Inl e, snd (aenter env s))"
proof -
  assume failed: "fst (aenter env s) = Inl e"
  then have "async_with env block s = (Inl e, snd (aenter env s))"
    by (cases "aenter env s") (simp add: async_with_def)
  then show ?thesis
    using aenter_no_release [of env s] aenter_resources [of env s] by simp
qed

theorem aenter_failure_keeps_resources_witness:
  "fst (aenter (platform\<lparr>out_new_context := Inl ''no context''\<rparr>) fresh) =
     Inl (Raised ''no context'') \<and>
   playwright_running (snd (aenter (platform\<lparr>out_new_context := Inl ''no context''\<rparr>) fresh)) \<and>
   browser_open (snd (aenter (platform\<lparr>out_new_context := Inl ''no context''\<rparr>) fresh)) \<and>
   async_with (platform\<lparr>out_new_context := Inl ''no context''\<rparr>) (logout platform) fresh =
     (Inl (Raised ''no context''),
      snd (aenter (platform\<lparr>out_new_context := Inl ''no context''\<rparr>) fresh))"
proof -
  have h: "fst (aenter (platform\<lparr>out_new_context := Inl ''no context''\<rparr>) fresh) =
      Inl (Raised ''no context'')"
    by (simp add: facade_defs scenario_defs)
  show ?thesis
    using h aenter_failure_keeps_resources [OF h, where block = "logout platform"]
    by (simp add: platform_def fresh_def init_def)
qed

text \<open>
  Claim C4 as stated fails: when the launch of the browser fails, Start raises with the
  driver process, which it had started, still running; the only external calls made are
  the start of the driver and the launch.
\<close>

theorem aenter_leak_counterexample:
  "fst (aenter (platform\<lparr>out_launch := \<lambda>h. Inl ''launch failed''\<rparr>) fresh) =
     Inl (Raised ''launch failed'') \<and>
   playwright_running (snd (aenter (platform\<lparr>out_launch := \<lambda>h. Inl ''launch failed''\<rparr>) fresh)) \<and>
   trace (snd (aenter (platform\<lparr>out_launch := \<lambda>h. Inl ''launch failed''\<rparr>) fresh)) =
     [Playwright_start, Firefox_launch True]"
  by (simp add: facade_defs scenario_defs)

text \<open>
  Claim C5, as amended: Stop closes the context, then the browser, then stops the driver,
  in that order, each step being made only when the steps before it succeeded. When all
  three succeed, all three resources are released. A failure while closing one of them is
  raised to the caller at once, and the resources after it are neither closed nor
  attempted.
\<close>

theorem aexit_first_failure:
  "(out_context_close env = Inl m \<longrightarrow>
      aexit env s = (Inl (Raised m), s\<lparr>trace := trace s @ [Context_close]\<rparr>)) \<and>
   (out_context_close env = Inr () \<and> out_browser_close env = Inl m \<longrightarrow>
      aexit env s =
        (Inl (Raised m),
         s\<lparr>context_open := False, trace := trace s @ [Context_close, Browser_close]\<rparr>)) \<and>
   (out_context_close env = Inr () \<and> out_browser_close env = Inr () \<and>
    out_playwright_stop env = Inl m \<longrightarrow>
      aexit env s =
        (Inl (Raised m),
         s\<lparr>context_open := False, browser_open := False,
           trace := trace s @ [Context_close, Browser_close, Playwright_stop]\<rparr>)) \<and>
   (out_context_close env = Inr () \<and> out_browser_close env = Inr () \<and>
    out_playwright_stop env = Inr () \<longrightarrow>
      aexit env s =
        (Inr (),
         s\<lparr>context_open := False, browser_open := False, playwright_running := False,
           trace := trace s @ [Context_close, Browser_close, Playwright_stop]\<rparr>))"
  by (simp add: facade_defs)

theorem aexit_first_failure_witness:
  "aexit platform logged_in =
     (Inr (), logged_in\<lparr>trace := [Context_close, Browser_close, Playwright_stop]\<rparr>) \<and>
   aexit (platform\<lparr>out_context_close := Inl ''close failed''\<rparr>) logged_in =
     (Inl (Raised ''close failed''), logged_in\<lparr>trace := [Context_close]\<rparr>) \<and>
   aexit (platform\<lparr>out_browser_close := Inl ''close failed''\<rparr>) logged_in =
     (Inl (Raised ''close failed''), logged_in\<lparr>trace := [Context_close, Browser_close]\<rparr>) \<and>
   aexit (platform\<lparr>out_playwright_stop := Inl ''stop failed''\<rparr>) logged_in =
     (Inl (Raised ''stop failed''),
      logged_in\<lparr>trace := [Context_close, Browser_close, Playwright_stop]\<rparr>)"
  using aexit_first_failure [of platform _ logged_in]
    aexit_first_failure [of "platform\<lparr>out_context_close := Inl ''close failed''\<rparr>"
      "''close failed''" logged_in]
    aexit_first_failure [of "platform\<lparr>out_browser_close := Inl ''close failed''\<rparr>"
      "''close failed''" logged_in]
    aexit_first_failure [of "platform\<lparr>out_playwright_stop := Inl ''stop failed''\<rparr>"
      "''stop failed''" logged_in]
  by (simp add: platform_def logged_in_def fresh_def init_def)

text \<open>
  Claim C5 as stated fails: after a successful Start, a Stop in which closing the context
  fails raises that failure to the caller, and leaves the browser open and the driver
  running without trying to close them.
\<close>

theorem aexit_failure_counterexample:
  "fst (aexit (platform\<lparr>out_context_close := Inl ''close failed''\<rparr>)
          (snd (aenter platform fresh))) = Inl (Raised ''close failed'') \<and>
   browser_open (snd (aexit (platform\<lparr>out_context_close := Inl ''close failed''\<rparr>)
          (snd (aenter platform fresh)))) \<and>
   playwright_running (snd (aexit (platform\<lparr>out_context_close := Inl ''close failed''\<rparr>)
          (snd (aenter platform fresh)))) \<and>
   Browser_close \<notin> set (trace (snd (aexit (platform\<lparr>out_context_close := Inl ''close failed''\<rparr>)
          (snd (aenter platform fresh))))) \<and>
   Playwright_stop \<notin> set (trace (snd (aexit (platform\<lparr>out_context_close := Inl ''close failed''\<rparr>)
          (snd (aenter platform fresh)))))"
  by (simp add: facade_defs scenario_defs)

subsection \<open>Cookie import\<close>

lemma set_cookies_run:
  "cookie_file env path = Json j \<and> normalize_cookies env j = Inr cs \<and>
   out_add_cookies env cs = Inr () \<and> out_new_page env = Inr () \<and>
   out_page_close env = Inr () \<Longrightarrow>
     trace (snd (set_cookies env path s)) =
       trace s @ [Read_json path, Add_cookies cs, New_page, Goto (BASE_URL env)] @
         (case out_goto env (BASE_URL env) of
            Inl m \<Rightarrow> [] | Inr v \<Rightarrow> [Text_content SELECTOR 5000]) @
         [Page_close, Save_state] \<and>
     context_cookies (snd (set_cookies env path s)) = context_cookies s @ cs \<and>
     fst (set_cookies env path s) =
       (case out_save_state env of
          Inl m \<Rightarrow> Inl (RequestFailed (Raised m)) | Inr v \<Rightarrow> Inr ()) \<and>
     session_file (snd (set_cookies env path s)) =
       (session_file s \<or> out_save_state env = Inr ())"
  by (simp add: facade_defs split: sum.splits prod.splits option.splits)

lemma set_cookies_flag_independent:
  "fst (set_cookies env path (s\<lparr>authenticated := b\<rparr>)) = fst (set_cookies env path s) \<and>
   trace (snd (set_cookies env path (s\<lparr>authenticated := b\<rparr>))) =
     trace (snd (set_cookies env path s))"
  by (simp add: facade_defs split: sum.splits prod.splits option.splits file_content.splits)

lemma set_cookies_never_auth_required:
  "(case fst (set_cookies env path s) of Inl e \<Rightarrow> \<not> auth_required e | Inr v \<Rightarrow> True)"
  by (simp add: facade_defs split: sum.splits prod.splits option.splits file_content.splits)

text \<open>
  Claim C8: \<^verbatim>\<open>set_cookies\<close> reads the file first and fails, having done nothing else,
  when the file is missing or is not valid JSON. The JSON read is normalized before
  anything is installed: when normalization fails no cookie is installed. The cookies
  installed are the normalized ones; the call that installs them comes after the read and
  before the probe; and when the probe's page can be opened and closed, the external calls
  are, in this order: the read, the installation, the calls of the probe (new page,
  navigation to the base URL, the greeting lookup if navigation succeeded, closing the
  page), and the saving of the Session State, whose outcome is the outcome of the method.
\<close>

theorem set_cookies_order:
  "(cookie_file env path = Missing \<longrightarrow>
      set_cookies env path s =
        (Inl (RequestFailed (Raised ''FileNotFoundError'')),
         s\<lparr>trace := trace s @ [Read_json path]\<rparr>)) \<and>
   (cookie_file env path = NotJson \<longrightarrow>
      set_cookies env path s =
        (Inl (RequestFailed (Raised ''JSONDecodeError'')),
         s\<lparr>trace := trace s @ [Read_json path]\<rparr>)) \<and>
   (cookie_file env path = Json j \<and> normalize_cookies env j = Inl m \<longrightarrow>
      set_cookies env path s =
        (Inl (RequestFailed (Raised m)), s\<lparr>trace := trace s @ [Read_json path]\<rparr>)) \<and>
   (cookie_file env path = Json j \<and> normalize_cookies env j = Inr cs \<and>
    out_add_cookies env cs = Inl m \<longrightarrow>
      set_cookies env path s =
        (Inl (RequestFailed (Raised m)),
         s\<lparr>trace := trace s @ [Read_json path, Add_cookies cs]\<rparr>)) \<and>
   (cookie_file env path = Json j \<and> normalize_cookies env j = Inr cs \<and>
    out_add_cookies env cs = Inr () \<and> out_new_page env = Inr () \<and>
    out_page_close env = Inr () \<longrightarrow>
      trace (snd (set_cookies env path s)) =
        trace s @ [Read_json path, Add_cookies cs, New_page, Goto (BASE_URL env)] @
          (case out_goto env (BASE_URL env) of
             Inl m \<Rightarrow> [] | Inr v \<Rightarrow> [Text_content SELECTOR 5000]) @
          [Page_close, Save_state] \<and>
      context_cookies (snd (set_cookies env path s)) = context_cookies s @ cs \<and>
      fst (set_cookies env path s) =
        (case out_save_state env of
           Inl m \<Rightarrow> Inl (RequestFailed (Raised m)) | Inr v \<Rightarrow> Inr ()) \<and>
      session_file (snd (set_cookies env path s)) =
        (session_file s \<or> out_save_state env = Inr ()))"
  by (simp add: facade_defs split: sum.splits prod.splits option.splits)

theorem set_cookies_order_witness:
  "set_cookies platform ''cookies.json'' fresh =
     (Inr (),
      fresh\<lparr>authenticated := True,
        context_cookies := [[(''name'', JStr ''sid''), (''value'', JStr ''1'')]],
        session_file := True,
        trace := [Read_json ''cookies.json'',
          Add_cookies [[(''name'', JStr ''sid''), (''value'', JStr ''1'')]],
          New_page, Goto ''https://platform'', Text_content ''h1.h1.f-text-34'' 5000,
          Page_close, Save_state],
        logs := [''Hola'']\<rparr>) \<and>
   set_cookies platform ''absent.json'' fresh =
     (Inl (RequestFailed (Raised ''FileNotFoundError'')),
      fresh\<lparr>trace := [Read_json ''absent.json'']\<rparr>) \<and>
   set_cookies platform ''notes.txt'' fresh =
     (Inl (RequestFailed (Raised ''JSONDecodeError'')),
      fresh\<lparr>trace := [Read_json ''notes.txt'']\<rparr>)"
  using set_cookies_order [of platform "''absent.json''" fresh]
    set_cookies_order [of platform "''notes.txt''" fresh]
    set_cookies_order [of platform "''cookies.json''"  fresh
      "JArr [JObj [(''name'', JStr ''sid''), (''value'', JStr ''1'')]]" _
      "[[(''name'', JStr ''sid''), (''value'', JStr ''1'')]]"]
  by (simp add: facade_defs scenario_defs)

text \<open>
  Claim C10: \<^verbatim>\<open>set_cookies\<close> is not auth-gated. Whatever the path, the environment and
  the flag, it never fails with the authentication-required error; its outcome and the
  external calls it makes do not depend on the flag; and called with the flag false, when
  the steps succeed, it installs the cookies, runs the probe and saves the Session State.
\<close>

theorem set_cookies_not_gated:
  "(case fst (set_cookies env path s) of Inl e \<Rightarrow> \<not> auth_required e | Inr v \<Rightarrow> True) \<and>
   fst (set_cookies env path (s\<lparr>authenticated := b\<rparr>)) = fst (set_cookies env path s) \<and>
   trace (snd (set_cookies env path (s\<lparr>authenticated := b\<rparr>))) =
     trace (snd (set_cookies env path s)) \<and>
   (\<not> authenticated s \<and> cookie_file env path = Json j \<and>
    normalize_cookies env j = Inr cs \<and> out_add_cookies env cs = Inr () \<and>
    out_new_page env = Inr () \<and> out_page_close env = Inr () \<and>
    out_save_state env = Inr () \<longrightarrow>
      fst (set_cookies env path s) = Inr () \<and>
      context_cookies (snd (set_cookies env path s)) = context_cookies s @ cs \<and>
      session_file (snd (set_cookies env path s)) \<and>
      trace (snd (set_cookies env path s)) =
        trace s @ [Read_json path, Add_cookies cs, New_page, Goto (BASE_URL env)] @
          (case out_goto env (BASE_URL env) of
             Inl m \<Rightarrow> [] | Inr v \<Rightarrow> [Text_content SELECTOR 5000]) @
          [Page_close, Save_state])"
  using set_cookies_never_auth_required [where env = env and path = path and s = s]
    set_cookies_flag_independent [where env = env and path = path and s = s and b = b]
    set_cookies_run [where env = env and path = path and s = s and j = j and cs = cs]
  by simp

theorem set_cookies_not_gated_witness:
  "\<not> authenticated fresh \<and>
   fst (set_cookies platform ''cookies.json'' fresh) = Inr () \<and>
   context_cookies (snd (set_cookies platform ''cookies.json'' fresh)) =
     [[(''name'', JStr ''sid''), (''value'', JStr ''1'')]] \<and>
   session_file (snd (set_cookies platform ''cookies.json'' fresh)) \<and>
   trace (snd (set_cookies platform ''cookies.json'' fresh)) =
     [Read_json ''cookies.json'',
      Add_cookies [[(''name'', JStr ''sid''), (''value'', JStr ''1'')]],
      New_page, Goto ''https://platform'', Text_content ''h1.h1.f-text-34'' 5000,
      Page_close, Save_state]"
  using set_cookies_not_gated [where env = platform and path = "''cookies.json''"
      and s = fresh and b = True
      and j = "JArr [JObj [(''name'', JStr ''sid''), (''value'', JStr ''1'')]]"
      and cs = "[[(''name'', JStr ''sid''), (''value'', JStr ''1'')]]"]
  by (simp add: scenario_defs)

subsection \<open>The Authenticated flag\<close>

lemma run_authenticated: "authenticated s \<Longrightarrow> authenticated (run env op s)"
  by (cases op)
    (simp_all add: facade_defs Let_def
      split: sum.splits prod.splits option.splits file_content.splits)

lemma run_all_authenticated: "authenticated s \<Longrightarrow> authenticated (run_all ops s)"
proof (induction ops arbitrary: s)
  case Nil
  then show ?case by simp
next
  case (Cons a ops)
  then show ?case
    by (cases a) (simp add: run_authenticated)
qed

text \<open>
  Claim C9: the flag is false in a newly constructed object; once true it is true after
  any sequence of operations, each in any environment; and \<^verbatim>\<open>logout\<close>, Stop,
  \<^verbatim>\<open>fetch_unit\<close>, \<^verbatim>\<open>fetch_course\<close> and \<^verbatim>\<open>download\<close> (the operations that run neither
  \<^verbatim>\<open>login\<close> nor the probe) leave it as it was.
\<close>

theorem authenticated_monotone:
  "authenticated (init h f) = False \<and>
   (authenticated s \<longrightarrow> authenticated (run_all ops s)) \<and>
   authenticated (run env Logout s) = authenticated s \<and>
   authenticated (run env Aexit s) = authenticated s \<and>
   authenticated (run env (Fetch_unit url) s) = authenticated s \<and>
   authenticated (run env (Fetch_course url) s) = authenticated s \<and>
   authenticated (run env (Download url kw) s) = authenticated s"
proof -
  have "authenticated (run env (Download url kw) s) = authenticated s"
    by (simp add: facade_defs Let_def split: sum.splits prod.splits)
  moreover have "authenticated (run env (Fetch_unit url) s) = authenticated s"
    by (simp add: facade_defs split: sum.splits prod.splits)
  moreover have "authenticated (run env (Fetch_course url) s) = authenticated s"
    by (simp add: facade_defs split: sum.splits prod.splits)
  moreover have "authenticated (run env Aexit s) = authenticated s"
    by (simp add: facade_defs split: sum.splits prod.splits)
  moreover have "authenticated (run env Logout s) = authenticated s"
    by (simp add: facade_defs split: sum.splits prod.splits)
  ultimately show ?thesis
    by (simp add: init_def run_all_authenticated)
qed

theorem authenticated_monotone_witness:
  "authenticated (run platform Login fresh) \<and>
   authenticated (run_all [(platform, Logout),
       (platform\<lparr>out_text_content := \<lambda>sel t. Inl ''TimeoutError''\<rparr>, Set_profile),
       (platform, Aexit)] (run platform Login fresh))"
proof -
  have h: "authenticated (run platform Login fresh)"
    by (simp add: facade_defs scenario_defs)
  show ?thesis
    using h authenticated_monotone [where s = "run platform Login fresh" and
        ops = "[(platform, Logout),
          (platform\<lparr>out_text_content := \<lambda>sel t. Inl ''TimeoutError''\<rparr>, Set_profile),
          (platform, Aexit)]"]
    by simp
qed

end
